theory Spec2Isabelle
  imports Complex_Main "HOL-Library.Word"
begin

section \<open>Text and the parsed document\<close>

text \<open>
  A Python \<open>str\<close> is a sequence of Unicode code points and \<open>len\<close> counts code points, so
  text is a list of code points here.  Tag names, attribute names and codec names are
  written as HOL strings; \<open>u\<close> turns such a literal into text.
\<close>

type_synonym ustring = "nat list"

definition u :: "string \<Rightarrow> ustring" where
  "u s = map of_char s"

text \<open>The characters for which \<open>str.isspace\<close> holds; \<open>str.strip()\<close> removes them at both ends.\<close>

definition isspace :: "nat \<Rightarrow> bool" where
  "isspace c \<longleftrightarrow>
     (9 \<le> c \<and> c \<le> 13) \<or> (28 \<le> c \<and> c \<le> 32) \<or> c = 133 \<or> c = 160 \<or> c = 5760 \<or>
     (8192 \<le> c \<and> c \<le> 8202) \<or> c = 8232 \<or> c = 8233 \<or> c = 8239 \<or> c = 8287 \<or> c = 12288"

definition lstrip :: "ustring \<Rightarrow> ustring" where
  "lstrip s = dropWhile isspace s"

definition rstrip :: "ustring \<Rightarrow> ustring" where
  "rstrip s = rev (dropWhile isspace (rev s))"

definition strip :: "ustring \<Rightarrow> ustring" where
  "strip s = rstrip (lstrip s)"

text \<open>\<open>sep.join(parts)\<close>.\<close>

fun join :: "ustring \<Rightarrow> ustring list \<Rightarrow> ustring" where
  "join sep [] = []"
| "join sep [x] = x"
| "join sep (x # y # ys) = x @ sep @ join sep (y # ys)"

text \<open>
  The document tree the parser hands over: a tag with its name, its attributes in source
  order and its children; a text node; and the strings the parser types as something
  other than plain text (comments, doctype, the source inside \<open>script\<close> and \<open>style\<close>),
  which \<open>get_text\<close> leaves out.  A document (the \<open>soup\<close>) is the list of its top-level
  nodes.
\<close>

datatype node =
    NavigableString ustring
  | OtherString ustring
  | Tag string "(string \<times> ustring) list" "node list"

type_synonym soup = "node list"

fun descendants :: "node \<Rightarrow> node list" where
  "descendants (Tag n a cs) = concat (map (\<lambda>c. c # descendants c) cs)"
| "descendants (NavigableString s) = []"
| "descendants (OtherString s) = []"

definition soup_descendants :: "soup \<Rightarrow> node list" where
  "soup_descendants doc = concat (map (\<lambda>c. c # descendants c) doc)"

fun is_tag :: "string list \<Rightarrow> node \<Rightarrow> bool" where
  "is_tag names (Tag n a cs) = (n \<in> set names)"
| "is_tag names (NavigableString s) = False"
| "is_tag names (OtherString s) = False"

text \<open>\<open>soup.find_all(names)\<close> and \<open>tag.find_all(names)\<close>: the matching tags in document order.\<close>

definition find_all :: "soup \<Rightarrow> string list \<Rightarrow> node list" where
  "find_all doc names = filter (is_tag names) (soup_descendants doc)"

definition tag_find_all :: "node \<Rightarrow> string list \<Rightarrow> node list" where
  "tag_find_all t names = filter (is_tag names) (descendants t)"

text \<open>\<open>soup.find(name)\<close>: the first match, or \<open>None\<close>.\<close>

definition find :: "soup \<Rightarrow> string \<Rightarrow> node option" where
  "find doc name = (case find_all doc [name] of [] \<Rightarrow> None | t # ts \<Rightarrow> Some t)"

fun navigable_strings :: "node list \<Rightarrow> ustring list" where
  "navigable_strings [] = []"
| "navigable_strings (NavigableString s # ns) = s # navigable_strings ns"
| "navigable_strings (n # ns) = navigable_strings ns"

text \<open>
  \<open>tag.get_text(strip=True, separator=sep)\<close>: every text node below the tag, stripped,
  the empty ones dropped, joined by the separator (the empty string when none is given).
\<close>

definition stripped_strings :: "node list \<Rightarrow> ustring list" where
  "stripped_strings ns = filter (\<lambda>s. s \<noteq> []) (map strip (navigable_strings ns))"

definition get_text :: "ustring \<Rightarrow> node \<Rightarrow> ustring" where
  "get_text sep t = join sep (stripped_strings (descendants t))"

definition soup_get_text :: "ustring \<Rightarrow> soup \<Rightarrow> ustring" where
  "soup_get_text sep doc = join sep (stripped_strings (soup_descendants doc))"

section \<open>Results\<close>

text \<open>
  Every check prints one result line and returns a boolean.  The mark that opens the
  result line is the status: the cross is FAIL, the warning sign WARN, the check mark
  PASS and the information sign INFO.  A check is modelled as the pair of the result
  line it prints and the boolean it returns.
\<close>

datatype status = PASS | WARN | FAIL | INFO

section \<open>Dominant language\<close>



section \<open>The title check\<close>







section \<open>Attributes\<close>

text \<open>
  \<open>tag.get(key)\<close>: the value of an attribute, or \<open>None\<close>.  The attribute list is the tag's
  dictionary, one entry for each name; an attribute written without a value has the
  empty string.
\<close>

fun get_attr :: "node \<Rightarrow> string \<Rightarrow> ustring option" where
  "get_attr (Tag n a cs) key = map_of a key"
| "get_attr (NavigableString s) key = None"
| "get_attr (OtherString s) key = None"


text \<open>
  The values of \<open>class\<close> and \<open>rel\<close> are kept by the parser as the list of their
  whitespace-separated tokens.
\<close>

fun tokens_from :: "ustring \<Rightarrow> ustring \<Rightarrow> ustring list" where
  "tokens_from cur [] = (if cur = [] then [] else [cur])"
| "tokens_from cur (c # cs) =
     (if isspace c then (if cur = [] then tokens_from [] cs else cur # tokens_from [] cs)
      else tokens_from (cur @ [c]) cs)"

definition tokens :: "ustring \<Rightarrow> ustring list" where
  "tokens s = tokens_from [] s"

definition attr_tokens :: "node \<Rightarrow> string \<Rightarrow> ustring list" where
  "attr_tokens t key = (case get_attr t key of None \<Rightarrow> [] | Some v \<Rightarrow> tokens v)"

text \<open>\<open>soup.find(name, attrs={key: value})\<close> for a single-valued attribute.\<close>

definition find_attrs :: "soup \<Rightarrow> string \<Rightarrow> string \<Rightarrow> ustring \<Rightarrow> node option" where
  "find_attrs doc name key v =
     (case filter (\<lambda>t. is_tag [name] t \<and> get_attr t key = Some v) (soup_descendants doc) of
        [] \<Rightarrow> None
      | t # ts \<Rightarrow> Some t)"


text \<open>The substring test \<open>a in b\<close>.\<close>

fun str_in :: "ustring \<Rightarrow> ustring \<Rightarrow> bool" where
  "str_in a [] = (a = [])"
| "str_in a (c # cs) = (take (length a) (c # cs) = a \<or> str_in a cs)"

section \<open>The meta description check\<close>






section \<open>The H1 check\<close>

datatype h1_line = H1NotFound | H1Several nat

fun h1_line_status :: "h1_line \<Rightarrow> status" where
  "h1_line_status H1NotFound = FAIL"
| "h1_line_status (H1Several n) = WARN"

datatype h1_state = H1Empty | H1MaybeShort | H1MaybeLong | H1LengthGood

definition h1_state_of :: "ustring \<Rightarrow> h1_state" where
  "h1_state_of h1_text =
     (let h1_length = length h1_text
      in if h1_length = 0 then H1Empty
         else if h1_length < 10 then H1MaybeShort
         else if h1_length > 100 then H1MaybeLong
         else H1LengthGood)"

datatype relation_line =
    RelIdentical
  | RelContainment
  | RelShared ustring ustring
  | RelWeak

definition stop_words :: "nat list" where
  "stop_words = [30340, 21644, 19982, 21450, 25110, 22312, 26159, 26377, 20102, 21527,
                 21602, 21543, 21834]"

definition extract_key_phrases :: "ustring \<Rightarrow> ustring list" where
  "extract_key_phrases text =
     (let words = filter (\<lambda>word. word \<notin> set stop_words) text
      in (if length words > 2 then [take (min 3 (length words)) words] else [])
         @ (if length words > 4 then [drop 2 (take (min 5 (length words)) words)] else []))"

text \<open>The inner and the outer loop over the phrases; both stop at the first related pair.\<close>

fun related_title_phrase :: "ustring \<Rightarrow> ustring list \<Rightarrow> ustring option" where
  "related_title_phrase h1_phrase [] = None"
| "related_title_phrase h1_phrase (title_phrase # rest) =
     (if length h1_phrase \<ge> 2 \<and> length title_phrase \<ge> 2
         \<and> (str_in h1_phrase title_phrase \<or> str_in title_phrase h1_phrase)
      then Some title_phrase
      else related_title_phrase h1_phrase rest)"

fun related_phrases :: "ustring list \<Rightarrow> ustring list \<Rightarrow> (ustring \<times> ustring) option" where
  "related_phrases [] title_phrases = None"
| "related_phrases (h1_phrase # rest) title_phrases =
     (case related_title_phrase h1_phrase title_phrases of
        Some title_phrase \<Rightarrow> Some (h1_phrase, title_phrase)
      | None \<Rightarrow> related_phrases rest title_phrases)"

definition h1_title_relation :: "ustring \<Rightarrow> ustring \<Rightarrow> relation_line" where
  "h1_title_relation primary_h1 page_title =
     (if primary_h1 = page_title then RelIdentical
      else if str_in primary_h1 page_title \<or> str_in page_title primary_h1 then RelContainment
      else (case related_phrases (extract_key_phrases primary_h1) (extract_key_phrases page_title) of
              Some (h1_phrase, title_phrase) \<Rightarrow> RelShared h1_phrase title_phrase
            | None \<Rightarrow> RelWeak))"

record h1_report =
  h1_result :: "h1_line option"
  h1_states :: "h1_state list"
  h1_relation :: "relation_line option"
  h1_verdict :: bool

definition check_h1 :: "soup \<Rightarrow> h1_report" where
  "check_h1 doc =
     (let h1_tags = find_all doc [''h1''];
          h1_count = length h1_tags;
          page_title = (case find doc ''title'' of Some title_tag \<Rightarrow> get_text [] title_tag | None \<Rightarrow> [])
      in if h1_count = 0
         then \<lparr>h1_result = Some H1NotFound, h1_states = [], h1_relation = None, h1_verdict = False\<rparr>
         else
           (let h1_contents = map (get_text []) h1_tags
            in \<lparr>h1_result = (if h1_count > 1 then Some (H1Several h1_count) else None),
                h1_states = map h1_state_of h1_contents,
                h1_relation =
                  (if page_title \<noteq> [] \<and> h1_count \<ge> 1
                   then Some (h1_title_relation (hd h1_contents) page_title)
                   else None),
                h1_verdict = (h1_count = 1)\<rparr>))"

section \<open>The image alt check\<close>

datatype alt_line =
    AltNoImages
  | AltAllPresent
  | AltFewMissing
  | AltManyMissing
  | AltMostMissing

fun alt_status :: "alt_line \<Rightarrow> status" where
  "alt_status AltNoImages = INFO"
| "alt_status AltAllPresent = PASS"
| "alt_status AltFewMissing = WARN"
| "alt_status AltManyMissing = WARN"
| "alt_status AltMostMissing = FAIL"

text \<open>\<open>not img.get('alt')\<close>: the attribute is absent or its value is the empty string.\<close>

definition without_alt :: "node \<Rightarrow> bool" where
  "without_alt img \<longleftrightarrow> (case get_attr img ''alt'' of None \<Rightarrow> True | Some v \<Rightarrow> v = [])"

definition missing_percentage :: "nat \<Rightarrow> nat \<Rightarrow> real" where
  "missing_percentage missing_alt_count total_images =
     (if total_images > 0 then (real missing_alt_count / real total_images) * 100 else 0)"

definition check_image_alt :: "soup \<Rightarrow> alt_line \<times> bool" where
  "check_image_alt doc =
     (let all_images = find_all doc [''img''];
          total_images = length all_images
      in if total_images = 0 then (AltNoImages, True)
         else
           (let images_without_alt = filter without_alt all_images;
                missing_alt_count = length images_without_alt;
                percentage = missing_percentage missing_alt_count total_images
            in if missing_alt_count = 0 then (AltAllPresent, True)
               else ((if percentage < 20 then AltFewMissing
                      else if percentage < 50 then AltManyMissing
                      else AltMostMissing),
                     missing_alt_count = 0)))"

text \<open>Two sample documents: one image of five, and one image of six, without alt text.\<close>

definition five_images :: soup where
  "five_images =
     [Tag ''body'' []
        [Tag ''img'' [(''src'', u ''a.png''), (''alt'', u ''a'')] [],
         Tag ''img'' [(''src'', u ''b.png''), (''alt'', u ''b'')] [],
         Tag ''img'' [(''src'', u ''c.png'')] [],
         Tag ''img'' [(''src'', u ''d.png''), (''alt'', u ''d'')] [],
         Tag ''img'' [(''src'', u ''e.png''), (''alt'', u ''e'')] []]]"

definition six_images :: soup where
  "six_images =
     [Tag ''img'' [(''alt'', [])] [],
      Tag ''img'' [(''alt'', u ''b'')] [],
      Tag ''img'' [(''alt'', u ''c'')] [],
      Tag ''img'' [(''alt'', u ''d'')] [],
      Tag ''img'' [(''alt'', u ''e'')] [],
      Tag ''img'' [(''alt'', u ''f'')] []]"

section \<open>The content visibility check\<close>

text \<open>
  The selectors that \<open>check_initial_content\<close> passes to \<open>select\<close>: a tag name, a class
  (one of the tag's class tokens is the name) or an id (the id attribute is the name).
\<close>

datatype selector = TypeSel string | ClassSel ustring | IdSel ustring

fun selects :: "selector \<Rightarrow> node \<Rightarrow> bool" where
  "selects (TypeSel n) t = is_tag [n] t"
| "selects (ClassSel c) t = (c \<in> set (attr_tokens t ''class''))"
| "selects (IdSel i) t = (get_attr t ''id'' = Some i)"

definition noise_tags :: "string list" where
  "noise_tags = [''script'', ''style'', ''noscript'', ''iframe'',
                 ''nav'', ''header'', ''footer'', ''aside'',
                 ''form'', ''button'', ''input'']"

definition nav_selectors :: "selector list" where
  "nav_selectors = [TypeSel ''nav'', ClassSel (u ''navigation''), ClassSel (u ''navbar''),
                    ClassSel (u ''menu''),
                    IdSel (u ''nav''), IdSel (u ''navigation''), IdSel (u ''menu''),
                    ClassSel (u ''header''), ClassSel (u ''footer''), ClassSel (u ''sidebar'')]"

text \<open>
  The effect on a tree of \<open>for tag in tree.find_all(...): tag.decompose()\<close>: every
  matching tag goes, with all that is below it.
\<close>

fun decompose_where :: "(node \<Rightarrow> bool) \<Rightarrow> node list \<Rightarrow> node list" where
  "decompose_where P [] = []"
| "decompose_where P (Tag n a cs # ns) =
     (if P (Tag n a cs) then decompose_where P ns
      else Tag n a (decompose_where P cs) # decompose_where P ns)"
| "decompose_where P (NavigableString s # ns) = NavigableString s # decompose_where P ns"
| "decompose_where P (OtherString s # ns) = OtherString s # decompose_where P ns"

text \<open>
  The check works on two trees: the caller's document, in which \<open>body\<close> is a reference to
  the first body tag, and \<open>temp_body\<close>, the tree parsed from the text of the body (the copy
  is taken to have the shape of the body it was written from).  The state holds both, so
  that every \<open>decompose\<close> says which tree it changes and every later read of \<open>body\<close> sees
  the document as it then is.
\<close>

record trees =
  document :: soup
  temp_body :: soup

definition body_of :: "trees \<Rightarrow> node option" where
  "body_of h = find (document h) ''body''"

definition parse_body_copy :: "node \<Rightarrow> trees \<Rightarrow> trees" where
  "parse_body_copy body h = h\<lparr>temp_body := [body]\<rparr>"

definition decompose_tags :: "string list \<Rightarrow> trees \<Rightarrow> trees" where
  "decompose_tags names h = h\<lparr>temp_body := decompose_where (is_tag names) (temp_body h)\<rparr>"

definition decompose_selected :: "selector \<Rightarrow> trees \<Rightarrow> trees" where
  "decompose_selected sel h = h\<lparr>temp_body := decompose_where (selects sel) (temp_body h)\<rparr>"

definition strip_noise :: "trees \<Rightarrow> trees" where
  "strip_noise h = fold decompose_selected nav_selectors (decompose_tags noise_tags h)"

text \<open>
  \<open>str(x).lower()\<close> on a class value.  Only the letters A to Z are mapped; no other
  character lowers to text that could complete one of the five ASCII words looked for.
\<close>

definition lower :: "ustring \<Rightarrow> ustring" where
  "lower s = map (\<lambda>c. if 65 \<le> c \<and> c \<le> 90 then c + 32 else c) s"

definition content_words :: "ustring list" where
  "content_words = [u ''content'', u ''post'', u ''article'', u ''main'', u ''entry'']"

text \<open>
  \<open>find_all(class_=f)\<close> applies the function to each class token and to the tokens
  joined by a space; a tag without a class attribute does not match.
\<close>

definition content_class :: "node \<Rightarrow> bool" where
  "content_class t \<longleftrightarrow>
     (case get_attr t ''class'' of
        None \<Rightarrow> False
      | Some v \<Rightarrow>
          (\<exists>x \<in> set (tokens v @ [join (u '' '') (tokens v)]).
             x \<noteq> [] \<and> (\<exists>word \<in> set content_words. str_in word (lower x))))"

definition meaningful_paragraphs :: "node \<Rightarrow> node list" where
  "meaningful_paragraphs body =
     filter (\<lambda>p. length (get_text [] p) > 50) (tag_find_all body [''p''])"

definition has_content_structure :: "node \<Rightarrow> bool" where
  "has_content_structure body \<longleftrightarrow>
     length (tag_find_all body [''article'', ''main'']) > 0
     \<or> length (filter content_class (descendants body)) > 0"

datatype content_line =
    ContentNoBody
  | ContentHighRisk
  | ContentMediumRisk
  | ContentGood
  | ContentNeedsCheck


definition classify_content :: "nat \<Rightarrow> nat \<Rightarrow> bool \<Rightarrow> content_line \<times> bool" where
  "classify_content text_length meaningful structure =
     (if text_length < 100 then (ContentHighRisk, False)
      else if text_length < 300 \<and> meaningful < 2 then (ContentMediumRisk, False)
      else if structure \<or> meaningful \<ge> 2 then (ContentGood, True)
      else (ContentNeedsCheck, text_length \<ge> 200))"

text \<open>
  The check as a state transformer: it returns its result and the two trees as they are
  when it returns.
\<close>

definition check_initial_content_on :: "trees \<Rightarrow> (content_line \<times> bool) \<times> trees" where
  "check_initial_content_on h =
     (case body_of h of
        None \<Rightarrow> ((ContentNoBody, False), h)
      | Some body \<Rightarrow>
          (let h' = strip_noise (parse_body_copy body h);
               visible_text = soup_get_text (u '' '') (temp_body h');
               text_length = length visible_text
           in (case body_of h' of
                 None \<Rightarrow> ((ContentNoBody, False), h')
               | Some body' \<Rightarrow>
                   (classify_content text_length
                      (length (meaningful_paragraphs body'))
                      (has_content_structure body'), h'))))"

definition check_initial_content :: "soup \<Rightarrow> content_line \<times> bool" where
  "check_initial_content doc =
     fst (check_initial_content_on \<lparr>document = doc, temp_body = []\<rparr>)"

text \<open>The text that is left of a body once the noise is removed from its copy.\<close>

definition visible_text :: "node \<Rightarrow> ustring" where
  "visible_text body =
     soup_get_text (u '' '')
       (temp_body (strip_noise (parse_body_copy body \<lparr>document = [], temp_body = []\<rparr>)))"

text \<open>
  A sample document: 120 characters of text in a div, and two paragraphs of 60
  characters each inside an aside.
\<close>

definition aside_body :: node where
  "aside_body =
     Tag ''body'' []
       [Tag ''div'' [] [NavigableString (replicate 120 97)],
        Tag ''aside'' []
          [Tag ''p'' [] [NavigableString (replicate 60 98)],
           Tag ''p'' [] [NavigableString (replicate 60 99)]]]"

section \<open>Errors\<close>

text \<open>The exceptions that the modelled code and the library calls it makes can raise.\<close>

datatype py_error = LookupError | UnicodeDecodeError | TypeError | ValueError

section \<open>URL parsing\<close>













section \<open>The canonical check\<close>







section \<open>Decoding the response\<close>

type_synonym bytes = "8 word list"


text \<open>
  The library calls of the decoding step, taken as parameters: the strict
  \<open>bytes.decode(name)\<close>, the lossy \<open>bytes.decode(name, errors='ignore')\<close>,
  \<open>chardet.detect\<close> with its answer as the pair of encoding and confidence, and
  \<open>response.text\<close>, which decodes with replacement characters and does not raise.
\<close>

record runtime =
  decode :: "string \<Rightarrow> bytes \<Rightarrow> py_error + ustring"
  decode_ignore :: "string \<Rightarrow> bytes \<Rightarrow> py_error + ustring"
  detect :: "bytes \<Rightarrow> string option \<times> real"
  response_text :: "string \<Rightarrow> bytes \<Rightarrow> ustring"









text \<open>
  A small runtime for evaluation.  Its decoders know ASCII text and the GBK bytes
  \<open>D6 EC E9 46 BB F9\<close> of a three-character name whose middle character (U+9555) is in
  GBK but not in GB2312; on these bytes, on the byte \<open>FF\<close> and on unknown codec names
  they answer as the CPython codecs do.  The detector answers GB2312 with confidence
  0.99, the answer of \<open>chardet\<close> for Chinese text in a GB encoding.
\<close>

definition gbk_name :: bytes where
  "gbk_name = [0xD6, 0xEC, 0xE9, 0x46, 0xBB, 0xF9]"

definition ascii_text :: "bytes \<Rightarrow> ustring" where
  "ascii_text c = map unat (filter (\<lambda>b. b < 128) c)"

definition sample_decode :: "string \<Rightarrow> bytes \<Rightarrow> py_error + ustring" where
  "sample_decode e c =
     (if e = ''gbk'' \<or> e = ''gb18030'' then
        (if c = gbk_name then Inr [0x6731, 0x9555, 0x57FA]
         else if \<forall>b \<in> set c. b < 128 then Inr (map unat c)
         else Inl UnicodeDecodeError)
      else if e = ''gb2312'' \<or> e = ''utf-8'' \<or> e = ''ascii'' then
        (if \<forall>b \<in> set c. b < 128 then Inr (map unat c) else Inl UnicodeDecodeError)
      else if e = ''iso-8859-1'' then Inr (map unat c)
      else Inl LookupError)"

definition sample_decode_ignore :: "string \<Rightarrow> bytes \<Rightarrow> py_error + ustring" where
  "sample_decode_ignore e c =
     (if e = ''GB2312'' \<or> e = ''gb2312'' then
        (if c = gbk_name then Inr [0x6731, 0x46, 0x57FA] else Inr (ascii_text c))
      else if e = ''utf-8'' \<or> e = ''ascii'' then Inr (ascii_text c)
      else Inl LookupError)"

definition sample_runtime :: runtime where
  "sample_runtime =
     \<lparr>decode = sample_decode,
      decode_ignore = sample_decode_ignore,
      detect = (\<lambda>c. (Some ''GB2312'', 99 / 100)),
      response_text = (\<lambda>e c. map (\<lambda>b. if b < 128 then unat b else 65533) c)\<rparr>"

section \<open>Basic facts about text and the document tree\<close>

lemma dropWhile_hd_id: "xs \<noteq> [] \<Longrightarrow> \<not> P (hd xs) \<Longrightarrow> dropWhile P xs = xs"
  by (cases xs) auto

lemma strip_id: "s \<noteq> [] \<Longrightarrow> \<not> isspace (hd s) \<Longrightarrow> \<not> isspace (last s) \<Longrightarrow> strip s = s"
  by (simp add: strip_def lstrip_def rstrip_def dropWhile_hd_id hd_rev)

lemma strip_replicate: "\<not> isspace c \<Longrightarrow> strip (replicate n c) = replicate n c"
  by (cases n) (simp_all add: strip_id, simp add: strip_def lstrip_def rstrip_def)


lemma get_text_single:
  "get_text sep (Tag n a [NavigableString s]) = (if strip s = [] then [] else strip s)"
  by (simp add: get_text_def stripped_strings_def)

section \<open>The title check: status bands and verdict\<close>






lemmas text_simps = u_def strip_def lstrip_def rstrip_def isspace_def get_text_def stripped_strings_def

lemmas tree_simps = find_def find_all_def soup_descendants_def find_attrs_def


section \<open>The H1 check: verdict\<close>

text \<open>
  Claim C5.  The boolean that the H1 check returns is true exactly when the document has
  exactly one h1 element.  It does not follow the relation to the title or the length
  classes of the headings: a single short heading with a weak relation to the title gives
  true, and two well-sized headings identical to the title give false.
\<close>

theorem check_h1_verdict:
  "h1_verdict (check_h1 doc) = (length (find_all doc [''h1'']) = 1)
   \<and> check_h1 [Tag ''title'' [] [NavigableString (u ''Alpha beta'')],
                Tag ''h1'' [] [NavigableString (u ''Zzzz'')]]
       = \<lparr>h1_result = None, h1_states = [H1MaybeShort], h1_relation = Some RelWeak,
          h1_verdict = True\<rparr>
   \<and> check_h1 [Tag ''title'' [] [NavigableString (u ''Alpha beta gamma'')],
                Tag ''h1'' [] [NavigableString (u ''Alpha beta gamma'')],
                Tag ''h1'' [] [NavigableString (u ''Alpha beta gamma'')]]
       = \<lparr>h1_result = Some (H1Several 2), h1_states = [H1LengthGood, H1LengthGood],
          h1_relation = Some RelIdentical, h1_verdict = False\<rparr>"
proof (intro conjI)
  show "h1_verdict (check_h1 doc) = (length (find_all doc [''h1'']) = 1)"
    by (simp add: check_h1_def Let_def)
next
  show "check_h1 [Tag ''title'' [] [NavigableString (u ''Alpha beta'')],
                Tag ''h1'' [] [NavigableString (u ''Zzzz'')]]
       = \<lparr>h1_result = None, h1_states = [H1MaybeShort], h1_relation = Some RelWeak,
          h1_verdict = True\<rparr>"
    by (simp add: check_h1_def Let_def tree_simps text_simps h1_state_of_def h1_title_relation_def
        extract_key_phrases_def stop_words_def)
next
  show "check_h1 [Tag ''title'' [] [NavigableString (u ''Alpha beta gamma'')],
                Tag ''h1'' [] [NavigableString (u ''Alpha beta gamma'')],
                Tag ''h1'' [] [NavigableString (u ''Alpha beta gamma'')]]
       = \<lparr>h1_result = Some (H1Several 2), h1_states = [H1LengthGood, H1LengthGood],
          h1_relation = Some RelIdentical, h1_verdict = False\<rparr>"
    by (simp add: check_h1_def Let_def tree_simps text_simps h1_state_of_def h1_title_relation_def)
qed

section \<open>The meta description check: verdict\<close>






section \<open>The image alt check: buckets and verdict\<close>

text \<open>
  The percentage is compared as an exact number; on counts of images the comparison
  with 20 is the comparison \<open>100 * missing < 20 * total\<close>.
\<close>

lemma missing_percentage_less:
  assumes "0 < t"
  shows "missing_percentage m t < real k \<longleftrightarrow> 100 * m < k * t"
proof -
  have "missing_percentage m t < real k \<longleftrightarrow> real m * 100 < real k * real t"
    using assms by (simp add: missing_percentage_def field_simps)
  also have "\<dots> \<longleftrightarrow> real (100 * m) < real (k * t)" by (simp add: mult.commute)
  also have "\<dots> \<longleftrightarrow> 100 * m < k * t" by (rule of_nat_less_iff)
  finally show ?thesis .
qed

lemma five_images_all: "length (find_all five_images [''img'']) = 5"
  by (simp add: five_images_def find_all_def soup_descendants_def)

lemma five_images_missing: "length (filter without_alt (find_all five_images [''img''])) = 1"
  by (simp add: five_images_def find_all_def soup_descendants_def without_alt_def u_def)

lemma six_images_all: "length (find_all six_images [''img'']) = 6"
  by (simp add: six_images_def find_all_def soup_descendants_def)

lemma six_images_missing: "length (filter without_alt (find_all six_images [''img''])) = 1"
  by (simp add: six_images_def find_all_def soup_descendants_def without_alt_def u_def)

text \<open>
  Claim C9.  A document without img elements gets the INFO line and the verdict true.
  With at least one img element the verdict is true exactly when no image lacks a
  non-empty alt attribute.  The minor WARN line is printed exactly when some image lacks
  alt text and the missing share is strictly below 20 percent, so one missing of five
  (20 percent) gets the moderate WARN line.
\<close>

theorem check_image_alt_buckets:
  "(find_all doc [''img''] = [] \<longrightarrow>
        check_image_alt doc = (AltNoImages, True) \<and> alt_status AltNoImages = INFO)
   \<and> (find_all doc [''img''] \<noteq> [] \<longrightarrow>
        snd (check_image_alt doc) = (\<forall>img \<in> set (find_all doc [''img'']). \<not> without_alt img))
   \<and> (fst (check_image_alt doc) = AltFewMissing \<longleftrightarrow>
        0 < length (filter without_alt (find_all doc [''img'']))
        \<and> 100 * length (filter without_alt (find_all doc [''img'']))
              < 20 * length (find_all doc [''img'']))
   \<and> (length (find_all doc [''img'']) = 5 \<longrightarrow>
        length (filter without_alt (find_all doc [''img''])) = 1 \<longrightarrow>
        check_image_alt doc = (AltManyMissing, False))"
proof (intro conjI impI)
  show "alt_status AltNoImages = INFO" by simp
next
  assume "find_all doc [''img''] = []"
  then show "check_image_alt doc = (AltNoImages, True)"
    by (simp add: check_image_alt_def)
next
  assume "find_all doc [''img''] \<noteq> []"
  then show "snd (check_image_alt doc) = (\<forall>img \<in> set (find_all doc [''img'']). \<not> without_alt img)"
    by (auto simp: check_image_alt_def Let_def filter_empty_conv)
next
  let ?t = "length (find_all doc [''img''])"
  let ?m = "length (filter without_alt (find_all doc [''img'']))"
  show "fst (check_image_alt doc) = AltFewMissing \<longleftrightarrow> 0 < ?m \<and> 100 * ?m < 20 * ?t"
  proof (cases "?m = 0")
    case True
    then show ?thesis by (simp add: check_image_alt_def Let_def)
  next
    case False
    have "?m \<le> ?t" by (rule length_filter_le)
    with False have t: "0 < ?t" by linarith
    have "missing_percentage ?m ?t < 20 \<longleftrightarrow> missing_percentage ?m ?t < real 20" by simp
    also have "\<dots> \<longleftrightarrow> 100 * ?m < 20 * ?t" using t by (rule missing_percentage_less)
    finally have "missing_percentage ?m ?t < 20 \<longleftrightarrow> 100 * ?m < 20 * ?t" .
    with False t show ?thesis by (auto simp add: check_image_alt_def Let_def)
  qed
next
  assume 5: "length (find_all doc [''img'']) = 5"
    and 1: "length (filter without_alt (find_all doc [''img''])) = 1"
  have p: "missing_percentage 1 5 = 20" by (simp add: missing_percentage_def)
  from 5 have ne: "find_all doc [''img''] \<noteq> []" by auto
  from 1 have ne': "filter without_alt (find_all doc [''img'']) \<noteq> []" by auto
  from 5 1 p ne ne' show "check_image_alt doc = (AltManyMissing, False)"
    by (simp add: check_image_alt_def Let_def)
qed

theorem check_image_alt_buckets_witness:
  "check_image_alt [] = (AltNoImages, True)
   \<and> length (find_all five_images [''img'']) = 5
   \<and> length (filter without_alt (find_all five_images [''img''])) = 1
   \<and> check_image_alt five_images = (AltManyMissing, False)
   \<and> find_all six_images [''img''] \<noteq> []
   \<and> fst (check_image_alt six_images) = AltFewMissing
   \<and> \<not> snd (check_image_alt six_images)"
proof -
  note none = check_image_alt_buckets [of "[]"]
  note five = check_image_alt_buckets [of five_images]
  note six = check_image_alt_buckets [of six_images]
  have 1: "check_image_alt [] = (AltNoImages, True)"
    using none by (simp add: find_all_def soup_descendants_def)
  have 2: "check_image_alt five_images = (AltManyMissing, False)"
    using five five_images_all five_images_missing by blast
  have ne: "find_all six_images [''img''] \<noteq> []"
    using six_images_all by auto
  have 3: "fst (check_image_alt six_images) = AltFewMissing"
    using six by (simp add: six_images_all six_images_missing)
  have "filter without_alt (find_all six_images [''img'']) \<noteq> []"
    using six_images_missing by auto
  then have "\<not> (\<forall>img \<in> set (find_all six_images [''img'']). \<not> without_alt img)"
    by (simp add: filter_empty_conv)
  with six ne have 4: "\<not> snd (check_image_alt six_images)" by blast
  from 1 2 ne 3 4 five_images_all five_images_missing show ?thesis by blast
qed

section \<open>The content visibility check: classification and frame\<close>

lemma document_fold_decompose_selected:
  "document (fold decompose_selected sels h) = document h"
  by (induction sels arbitrary: h) (simp_all add: decompose_selected_def)

lemma temp_body_fold_decompose_selected:
  "temp_body (fold decompose_selected sels h)
     = fold (\<lambda>sel. decompose_where (selects sel)) sels (temp_body h)"
  by (induction sels arbitrary: h) (simp_all add: decompose_selected_def)

lemma document_strip_noise: "document (strip_noise h) = document h"
  by (simp add: strip_noise_def document_fold_decompose_selected decompose_tags_def)

lemma temp_body_strip_noise:
  "temp_body (strip_noise h)
     = fold (\<lambda>sel. decompose_where (selects sel)) nav_selectors
         (decompose_where (is_tag noise_tags) (temp_body h))"
  by (simp add: strip_noise_def temp_body_fold_decompose_selected decompose_tags_def)

lemma body_of_strip_noise: "body_of (strip_noise (parse_body_copy body h)) = body_of h"
  by (simp add: body_of_def document_strip_noise parse_body_copy_def)

lemma visible_text_eq:
  "soup_get_text (u '' '') (temp_body (strip_noise (parse_body_copy body h))) = visible_text body"
  by (simp add: visible_text_def temp_body_strip_noise parse_body_copy_def)

lemma check_initial_content_on_body:
  "body_of h = Some body \<Longrightarrow>
   check_initial_content_on h =
     (classify_content (length (visible_text body)) (length (meaningful_paragraphs body))
        (has_content_structure body),
      strip_noise (parse_body_copy body h))"
  by (simp add: check_initial_content_on_def Let_def body_of_strip_noise visible_text_eq)

lemma check_initial_content_body:
  "find doc ''body'' = Some body \<Longrightarrow>
   check_initial_content doc =
     classify_content (length (visible_text body)) (length (meaningful_paragraphs body))
        (has_content_structure body)"
  by (simp add: check_initial_content_def check_initial_content_on_body body_of_def)




lemma is_tag_mono: "is_tag names c \<Longrightarrow> set names \<subseteq> set names' \<Longrightarrow> is_tag names' c"
  by (cases c) auto







lemma aside_body_noise:
  "decompose_where (is_tag noise_tags) [aside_body]
     = [Tag ''body'' [] [Tag ''div'' [] [NavigableString (replicate 120 97)]]]"
  by (simp add: aside_body_def noise_tags_def)

lemma aside_body_stripped:
  "fold (\<lambda>sel. decompose_where (selects sel)) nav_selectors
     [Tag ''body'' [] [Tag ''div'' [] [NavigableString (replicate 120 97)]]]
   = [Tag ''body'' [] [Tag ''div'' [] [NavigableString (replicate 120 97)]]]"
  by (simp add: nav_selectors_def attr_tokens_def)

lemma aside_body_visible_text: "visible_text aside_body = replicate 120 97"
  by (simp add: visible_text_def temp_body_strip_noise parse_body_copy_def aside_body_noise
      aside_body_stripped soup_get_text_def soup_descendants_def stripped_strings_def
      strip_replicate isspace_def)

lemma aside_body_paragraphs: "length (meaningful_paragraphs aside_body) = 2"
  by (simp add: meaningful_paragraphs_def aside_body_def tag_find_all_def get_text_single
      strip_replicate isspace_def)

lemma aside_body_structure: "\<not> has_content_structure aside_body"
  by (simp add: has_content_structure_def aside_body_def tag_find_all_def content_class_def)

lemma aside_body_found: "find [Tag ''html'' [] [aside_body]] ''body'' = Some aside_body"
  by (simp add: find_def find_all_def soup_descendants_def aside_body_def)



text \<open>
  Claim C4.  The check leaves the caller's document as it was: every removal changes the
  working copy \<open>temp_body\<close> only, which ends as the body with the noise tags and the
  navigation selectors removed, and the paragraphs are counted in the body of the
  document itself.  In the sample document both long paragraphs sit inside an aside:
  none is left in the working copy, two are counted, and the result is the PASS line.
\<close>

theorem check_initial_content_frame:
  "document (snd (check_initial_content_on h)) = document h
   \<and> (body_of h = Some body \<longrightarrow>
        temp_body (snd (check_initial_content_on h))
          = fold (\<lambda>sel. decompose_where (selects sel)) nav_selectors
              (decompose_where (is_tag noise_tags) [body])
        \<and> fst (check_initial_content_on h)
          = classify_content (length (visible_text body))
              (length (meaningful_paragraphs body)) (has_content_structure body))
   \<and> find_all (temp_body (snd (check_initial_content_on
          \<lparr>document = [Tag ''html'' [] [aside_body]], temp_body = []\<rparr>))) [''p''] = []
   \<and> length (meaningful_paragraphs aside_body) = 2
   \<and> check_initial_content [Tag ''html'' [] [aside_body]] = (ContentGood, True)"
proof (intro conjI impI)
  show "document (snd (check_initial_content_on h)) = document h"
  proof (cases "body_of h")
    case None
    then show ?thesis by (simp add: check_initial_content_on_def)
  next
    case (Some body)
    then show ?thesis
      by (simp add: check_initial_content_on_body document_strip_noise parse_body_copy_def)
  qed
next
  assume b: "body_of h = Some body"
  then show "temp_body (snd (check_initial_content_on h))
          = fold (\<lambda>sel. decompose_where (selects sel)) nav_selectors
              (decompose_where (is_tag noise_tags) [body])"
    by (simp add: check_initial_content_on_body temp_body_strip_noise parse_body_copy_def)
  from b show "fst (check_initial_content_on h)
          = classify_content (length (visible_text body))
              (length (meaningful_paragraphs body)) (has_content_structure body)"
    by (simp add: check_initial_content_on_body)
next
  have "body_of \<lparr>document = [Tag ''html'' [] [aside_body]], temp_body = []\<rparr> = Some aside_body"
    by (simp add: body_of_def aside_body_found)
  then show "find_all (temp_body (snd (check_initial_content_on
          \<lparr>document = [Tag ''html'' [] [aside_body]], temp_body = []\<rparr>))) [''p''] = []"
    by (simp add: check_initial_content_on_body temp_body_strip_noise parse_body_copy_def
        aside_body_noise aside_body_stripped find_all_def soup_descendants_def)
next
  show "length (meaningful_paragraphs aside_body) = 2"
    by (rule aside_body_paragraphs)
next
  show "check_initial_content [Tag ''html'' [] [aside_body]] = (ContentGood, True)"
    by (simp add: check_initial_content_body [OF aside_body_found] aside_body_visible_text
        aside_body_paragraphs aside_body_structure classify_content_def)
qed

theorem check_initial_content_frame_witness:
  "body_of \<lparr>document = [Tag ''html'' [] [aside_body]], temp_body = []\<rparr> = Some aside_body
   \<and> document (snd (check_initial_content_on
        \<lparr>document = [Tag ''html'' [] [aside_body]], temp_body = []\<rparr>))
      = [Tag ''html'' [] [aside_body]]
   \<and> temp_body (snd (check_initial_content_on
        \<lparr>document = [Tag ''html'' [] [aside_body]], temp_body = []\<rparr>))
      = [Tag ''body'' [] [Tag ''div'' [] [NavigableString (replicate 120 97)]]]
   \<and> fst (check_initial_content_on
        \<lparr>document = [Tag ''html'' [] [aside_body]], temp_body = []\<rparr>) = (ContentGood, True)"
proof -
  note frame = check_initial_content_frame
    [of "\<lparr>document = [Tag ''html'' [] [aside_body]], temp_body = []\<rparr>" aside_body]
  have b: "body_of \<lparr>document = [Tag ''html'' [] [aside_body]], temp_body = []\<rparr> = Some aside_body"
    by (simp add: body_of_def aside_body_found)
  from frame have d: "document (snd (check_initial_content_on
        \<lparr>document = [Tag ''html'' [] [aside_body]], temp_body = []\<rparr>))
      = [Tag ''html'' [] [aside_body]]"
    by simp
  from frame b have t: "temp_body (snd (check_initial_content_on
        \<lparr>document = [Tag ''html'' [] [aside_body]], temp_body = []\<rparr>))
      = [Tag ''body'' [] [Tag ''div'' [] [NavigableString (replicate 120 97)]]]"
    by (simp add: aside_body_noise aside_body_stripped)
  from frame have "check_initial_content [Tag ''html'' [] [aside_body]] = (ContentGood, True)"
    by blast
  then have r: "fst (check_initial_content_on
        \<lparr>document = [Tag ''html'' [] [aside_body]], temp_body = []\<rparr>) = (ContentGood, True)"
    by (simp add: check_initial_content_def)
  from b d t r show ?thesis by blast
qed

section \<open>URL normalisation and the canonical check\<close>

























section \<open>Decoding the response: results and fallback\<close>







lemmas sample_simps = sample_runtime_def sample_decode_def sample_decode_ignore_def gbk_name_def
  ascii_text_def













end
